theory Spec2Isabelle
  imports Complex_Main "HOL-Library.Word" "HOL-Library.Monad_Syntax"
begin

section \<open>GLM vectors and matrices\<close>

text \<open>
  \<^verbatim>\<open>glm::vec3\<close> is a struct of three \<^verbatim>\<open>float\<close> components. The components are modelled
  as real numbers: rounding is not part of the model. The arithmetic below is the one GLM
  performs component by component; \<^verbatim>\<open>glm::normalize(v)\<close> is \<^verbatim>\<open>v * inversesqrt(dot(v, v))\<close>
  and \<^verbatim>\<open>inversesqrt(x)\<close> is \<^verbatim>\<open>1 / sqrt(x)\<close>.
\<close>

datatype vec3 = Vec3 (vx: real) (vy: real) (vz: real)

definition vec3_minus :: "vec3 \<Rightarrow> vec3 \<Rightarrow> vec3" where
  "vec3_minus a b = Vec3 (vx a - vx b) (vy a - vy b) (vz a - vz b)"

definition vec3_scale :: "vec3 \<Rightarrow> real \<Rightarrow> vec3" where
  "vec3_scale v s = Vec3 (vx v * s) (vy v * s) (vz v * s)"

definition dot :: "vec3 \<Rightarrow> vec3 \<Rightarrow> real" where
  "dot a b = vx a * vx b + vy a * vy b + vz a * vz b"

definition inversesqrt :: "real \<Rightarrow> real" where
  "inversesqrt r = 1 / sqrt r"

definition glm_normalize :: "vec3 \<Rightarrow> vec3" where
  "glm_normalize v = vec3_scale v (inversesqrt (dot v v))"

text \<open>
  \<^verbatim>\<open>glm::mat4\<close> holds four columns. \<^verbatim>\<open>glm::mat4(1.0f)\<close> is the identity, and
  \<^verbatim>\<open>glm::translate(m, v)\<close> replaces the last column of \<open>m\<close> by
  \<^verbatim>\<open>m[0] * v[0] + m[1] * v[1] + m[2] * v[2] + m[3]\<close>.
\<close>

datatype vec4 = Vec4 (wx: real) (wy: real) (wz: real) (ww: real)

definition vec4_plus :: "vec4 \<Rightarrow> vec4 \<Rightarrow> vec4" where
  "vec4_plus a b = Vec4 (wx a + wx b) (wy a + wy b) (wz a + wz b) (ww a + ww b)"

definition vec4_scale :: "vec4 \<Rightarrow> real \<Rightarrow> vec4" where
  "vec4_scale v s = Vec4 (wx v * s) (wy v * s) (wz v * s) (ww v * s)"

datatype mat4 = Mat4 (col0: vec4) (col1: vec4) (col2: vec4) (col3: vec4)

definition mat4_identity :: mat4 where
  "mat4_identity = Mat4 (Vec4 1 0 0 0) (Vec4 0 1 0 0) (Vec4 0 0 1 0) (Vec4 0 0 0 1)"

definition translate :: "mat4 \<Rightarrow> vec3 \<Rightarrow> mat4" where
  "translate m v =
     Mat4 (col0 m) (col1 m) (col2 m)
       (vec4_plus (vec4_plus (vec4_plus (vec4_scale (col0 m) (vx v)) (vec4_scale (col1 m) (vy v)))
          (vec4_scale (col2 m) (vz v))) (col3 m))"

text \<open>The product of a matrix and a column vector, which places a point of the mesh in the world.\<close>

definition mat4_times_vec4 :: "mat4 \<Rightarrow> vec4 \<Rightarrow> vec4" where
  "mat4_times_vec4 m v =
     vec4_plus (vec4_plus (vec4_plus (vec4_scale (col0 m) (wx v)) (vec4_scale (col1 m) (wy v)))
       (vec4_scale (col2 m) (wz v))) (vec4_scale (col3 m) (ww v))"

section \<open>The window and its keyboard\<close>

text \<open>
  Of a \<^verbatim>\<open>GLFWwindow\<close> the program uses the close flag and the state of the keys, which
  \<^verbatim>\<open>glfwGetKey\<close> reports as \<^verbatim>\<open>GLFW_PRESS\<close> or \<^verbatim>\<open>GLFW_RELEASE\<close>.
\<close>

record GLFWwindow =
  shouldClose :: bool
  keyState :: "int \<Rightarrow> int"

definition GLFW_RELEASE :: int where "GLFW_RELEASE = 0"
definition GLFW_PRESS :: int where "GLFW_PRESS = 1"
definition GLFW_KEY_ESCAPE :: int where "GLFW_KEY_ESCAPE = 256"
definition GLFW_KEY_1 :: int where "GLFW_KEY_1 = 49"
definition GLFW_KEY_2 :: int where "GLFW_KEY_2 = 50"
definition GLFW_KEY_3 :: int where "GLFW_KEY_3 = 51"

definition glfwGetKey :: "GLFWwindow \<Rightarrow> int \<Rightarrow> int" where
  "glfwGetKey window key = keyState window key"

definition glfwSetWindowShouldClose :: "GLFWwindow \<Rightarrow> bool \<Rightarrow> GLFWwindow" where
  "glfwSetWindowShouldClose window v = window\<lparr>shouldClose := v\<rparr>"

definition glfwWindowShouldClose :: "GLFWwindow \<Rightarrow> bool" where
  "glfwWindowShouldClose window = shouldClose window"

text \<open>
  What one call of \<^verbatim>\<open>glfwPollEvents\<close> delivers: the new key states, and whether the user
  asked the window system to close the window.
\<close>

record events =
  key_states :: "int \<Rightarrow> int"
  close_requested :: bool

definition glfwPollEvents :: "events \<Rightarrow> GLFWwindow \<Rightarrow> GLFWwindow" where
  "glfwPollEvents e window =
     window\<lparr>keyState := key_states e, shouldClose := shouldClose window \<or> close_requested e\<rparr>"

section \<open>The file-scope camera variables\<close>

text \<open>
  \<^verbatim>\<open>cameraPositions\<close> is an array of exactly three vectors. Subscripting it outside
  \<open>0..2\<close> is undefined behaviour in C++, which the model reports as \<open>None\<close>.
\<close>

datatype vec3_array3 = Array3 vec3 vec3 vec3

fun subscript :: "vec3_array3 \<Rightarrow> int \<Rightarrow> vec3 option" where
  "subscript (Array3 a b c) i =
     (if i = 0 then Some a else if i = 1 then Some b else if i = 2 then Some c else None)"

record globals =
  sceneCenter :: vec3
  cameraPositions :: vec3_array3
  cameraFront :: vec3
  cameraUp :: vec3
  currentCameraPosition :: int

definition initial_cameraPositions :: vec3_array3 where
  "initial_cameraPositions = Array3 (Vec3 0 0 10) (Vec3 0 10 0) (Vec3 10 0 0)"

definition initial_globals :: globals where
  "initial_globals =
     \<lparr>sceneCenter = Vec3 0 0 0,
      cameraPositions = initial_cameraPositions,
      cameraFront = Vec3 0 0 (- 1),
      cameraUp = Vec3 0 1 0,
      currentCameraPosition = 0\<rparr>"

text \<open>The expression \<^verbatim>\<open>cameraPositions[currentCameraPosition]\<close>, the camera's position.\<close>

definition camera_position :: "globals \<Rightarrow> vec3 option" where
  "camera_position g = subscript (cameraPositions g) (currentCameraPosition g)"

section \<open>processInput\<close>

text \<open>
  The statement
  \<^verbatim>\<open>cameraFront = glm::normalize(sceneCenter - cameraPositions[currentCameraPosition]);\<close>
  which each of the three branches of \<^verbatim>\<open>processInput\<close> executes after assigning the index.
\<close>

definition assign_cameraFront :: "globals \<Rightarrow> globals option" where
  "assign_cameraFront g = do {
     p \<leftarrow> camera_position g;
     Some (g\<lparr>cameraFront := glm_normalize (vec3_minus (sceneCenter g) p)\<rparr>)
   }"

definition processInput :: "GLFWwindow \<Rightarrow> globals \<Rightarrow> (GLFWwindow \<times> globals) option" where
  "processInput window g = do {
     let window1 = (if glfwGetKey window GLFW_KEY_ESCAPE = GLFW_PRESS
                    then glfwSetWindowShouldClose window True else window);
     g1 \<leftarrow> (if glfwGetKey window1 GLFW_KEY_1 = GLFW_PRESS
            then assign_cameraFront (g\<lparr>currentCameraPosition := 0\<rparr>)
            else Some g);
     g2 \<leftarrow> (if glfwGetKey window1 GLFW_KEY_2 = GLFW_PRESS
            then do {
              g' \<leftarrow> assign_cameraFront (g1\<lparr>currentCameraPosition := 1\<rparr>);
              Some (g'\<lparr>cameraUp := Vec3 0 0 (- 1)\<rparr>)
            }
            else Some g1);
     g3 \<leftarrow> (if glfwGetKey window1 GLFW_KEY_3 = GLFW_PRESS
            then assign_cameraFront (g2\<lparr>currentCameraPosition := 2\<rparr>)
            else Some g2);
     Some (window1, g3)
   }"

text \<open>
  A sequence of \<^verbatim>\<open>processInput\<close> calls. Between two calls the event poll replaces the key
  states, so the sequence is driven by one keyboard snapshot per call.
\<close>

fun processInputs :: "(int \<Rightarrow> int) list \<Rightarrow> GLFWwindow \<times> globals \<Rightarrow> (GLFWwindow \<times> globals) option" where
  "processInputs [] s = Some s"
| "processInputs (k # ks) s =
     (case processInput ((fst s)\<lparr>keyState := k\<rparr>) (snd s) of
        None \<Rightarrow> None
      | Some s' \<Rightarrow> processInputs ks s')"

section \<open>The process environment\<close>

text \<open>
  What the program reads and writes outside its own variables: the files it can open (a path
  that cannot be opened has no entry; the contents are those a text-mode stream delivers), the
  error stream \<^verbatim>\<open>std::cerr\<close>, and the state of the OpenGL context: shader objects, buffer
  objects and their bindings, the matrix uniforms of the program in use, and the draw calls
  issued so far. Object names are natural numbers; the context hands out \<open>1, 2, 3, \<dots>\<close> and
  never \<open>0\<close>, as OpenGL reserves that name.
\<close>

record shader_object =
  shader_type :: "32 word"
  shader_source :: string
  compile_status :: bool
  info_log :: string

datatype buffer_data = Floats "real list" | UInts "32 word list"

datatype buffer_target = GL_ARRAY_BUFFER | GL_ELEMENT_ARRAY_BUFFER

record draw_call =
  draw_model :: "mat4 option"
  draw_elements :: "32 word list option"

record world =
  files :: "string \<rightharpoonup> string"
  cerr :: string
  shader_objects :: "nat \<rightharpoonup> shader_object"
  shaders_created :: nat
  buffer_objects :: "nat \<rightharpoonup> buffer_data"
  buffers_created :: nat
  buffer_binding :: "buffer_target \<Rightarrow> nat"
  uniforms :: "string \<rightharpoonup> mat4"
  draws :: "draw_call list"

text \<open>
  The graphics driver: the shader types for which it creates an object, and its GLSL compiler,
  which answers a type and a source text with the compile status and the information log.
\<close>

record driver =
  shader_types :: "32 word \<Rightarrow> bool"
  glsl :: "32 word \<Rightarrow> string \<Rightarrow> bool \<times> string"

text \<open>\<^verbatim>\<open>std::endl\<close> writes a newline; a C string ends at its first zero byte.\<close>

definition endl :: string where
  "endl = [CHR 0x0A]"

definition c_str :: "string \<Rightarrow> string" where
  "c_str s = takeWhile (\<lambda>c. c \<noteq> CHR 0x00) s"

section \<open>readFile\<close>

definition readFile :: "string \<Rightarrow> world \<Rightarrow> string \<times> world" where
  "readFile filePath w =
     (case files w filePath of
        None \<Rightarrow>
          ('''', w\<lparr>cerr := cerr w @ ''Could not read file '' @ filePath @
                               ''. File does not exist.'' @ endl\<rparr>)
      | Some content \<Rightarrow> (content, w))"

section \<open>The OpenGL shader calls and compileShader\<close>

text \<open>
  The calls follow the OpenGL specification. \<^verbatim>\<open>glCreateShader\<close> returns a new non-zero name,
  or \<open>0\<close> for a type it does not accept. A call that names no shader object raises a GL error
  and does nothing; a query then writes nothing to its result parameter (\<open>None\<close>).
  \<^verbatim>\<open>GL_INFO_LOG_LENGTH\<close> is the length of the log including its terminator, and \<open>0\<close> when the
  log is empty. \<^verbatim>\<open>glGetShaderInfoLog\<close> writes at most \<open>bufSize\<close> characters, terminator
  included, so with \<open>bufSize = 0\<close> it writes nothing at all (\<open>None\<close>).
\<close>

definition GL_VERTEX_SHADER :: "32 word" where "GL_VERTEX_SHADER = 0x8B31"
definition GL_FRAGMENT_SHADER :: "32 word" where "GL_FRAGMENT_SHADER = 0x8B30"

definition glCreateShader :: "driver \<Rightarrow> 32 word \<Rightarrow> world \<Rightarrow> nat \<times> world" where
  "glCreateShader drv type w =
     (if shader_types drv type
      then let name = Suc (shaders_created w)
           in (name, w\<lparr>shaders_created := name,
                        shader_objects := (shader_objects w)(name \<mapsto>
                          \<lparr>shader_type = type, shader_source = '''',
                           compile_status = False, info_log = ''''\<rparr>)\<rparr>)
      else (0, w))"

definition glShaderSource :: "nat \<Rightarrow> string \<Rightarrow> world \<Rightarrow> world" where
  "glShaderSource name src w =
     (case shader_objects w name of
        None \<Rightarrow> w
      | Some ob \<Rightarrow> w\<lparr>shader_objects := (shader_objects w)(name \<mapsto> ob\<lparr>shader_source := src\<rparr>)\<rparr>)"

definition glCompileShader :: "driver \<Rightarrow> nat \<Rightarrow> world \<Rightarrow> world" where
  "glCompileShader drv name w =
     (case shader_objects w name of
        None \<Rightarrow> w
      | Some ob \<Rightarrow>
          (case glsl drv (shader_type ob) (shader_source ob) of
             (ok, msg) \<Rightarrow>
               w\<lparr>shader_objects := (shader_objects w)(name \<mapsto>
                    ob\<lparr>compile_status := ok, info_log := c_str msg\<rparr>)\<rparr>))"

definition glGetShaderiv_COMPILE_STATUS :: "nat \<Rightarrow> world \<Rightarrow> int option" where
  "glGetShaderiv_COMPILE_STATUS name w =
     map_option (\<lambda>ob. if compile_status ob then 1 else 0) (shader_objects w name)"

definition glGetShaderiv_INFO_LOG_LENGTH :: "nat \<Rightarrow> world \<Rightarrow> int option" where
  "glGetShaderiv_INFO_LOG_LENGTH name w =
     map_option (\<lambda>ob. if info_log ob = [] then 0 else int (length (info_log ob)) + 1)
       (shader_objects w name)"

definition glGetShaderInfoLog :: "nat \<Rightarrow> int \<Rightarrow> world \<Rightarrow> string option" where
  "glGetShaderInfoLog name bufSize w =
     (case shader_objects w name of
        None \<Rightarrow> None
      | Some ob \<Rightarrow> if bufSize \<le> 0 then None else Some (take (nat (bufSize - 1)) (info_log ob)))"

definition glDeleteShader :: "nat \<Rightarrow> world \<Rightarrow> world" where
  "glDeleteShader name w = w\<lparr>shader_objects := (shader_objects w)(name := None)\<rparr>"

text \<open>
  \<^verbatim>\<open>compileShader\<close> declares \<^verbatim>\<open>int result\<close> and the \<^verbatim>\<open>alloca\<close> buffer \<^verbatim>\<open>message\<close> without
  initialising them and reads both after the query that should fill them. Reading one that
  the query left unwritten is undefined behaviour, which the model reports as a fault.
  The source's \<^verbatim>\<open>id\<close> and \<^verbatim>\<open>length\<close> are \<open>shader\<close> and \<open>len\<close> here.
\<close>

datatype fault = Unwritten_result | Unwritten_message

definition compileShader :: "driver \<Rightarrow> 32 word \<Rightarrow> string \<Rightarrow> world \<Rightarrow> fault + nat \<times> world" where
  "compileShader drv type source w =
     (case glCreateShader drv type w of
        (shader, w1) \<Rightarrow>
          let src = c_str source;
              w2 = glShaderSource shader src w1;
              w3 = glCompileShader drv shader w2
          in case glGetShaderiv_COMPILE_STATUS shader w3 of
               None \<Rightarrow> Inl Unwritten_result
             | Some result \<Rightarrow>
                 if result = 0
                 then (case glGetShaderiv_INFO_LOG_LENGTH shader w3 of
                         None \<Rightarrow> Inl Unwritten_result
                       | Some len \<Rightarrow>
                           (case glGetShaderInfoLog shader len w3 of
                              None \<Rightarrow> Inl Unwritten_message
                            | Some message \<Rightarrow>
                                let w4 = w3\<lparr>cerr := cerr w3 @ ''Failed to compile '' @
                                           (if type = GL_VERTEX_SHADER then ''vertex''
                                            else ''fragment'') @
                                           '' shader!'' @ [CHR 0x0A] @ message @ endl\<rparr>;
                                    w5 = glDeleteShader shader w4
                                in Inr (0, w5)))
                 else Inr (shader, w3))"

section \<open>The mesh, the buffers and the render loop of main\<close>

definition vertices :: "real list" where
  "vertices =
     [0.0, 0.5, 0.0, 1.0, 0.0, 0.0,
      - 0.5, - 0.5, 0.5, 0.0, 1.0, 0.0,
      0.5, - 0.5, 0.5, 0.0, 0.0, 1.0,
      0.5, - 0.5, - 0.5, 1.0, 1.0, 0.0,
      - 0.5, - 0.5, - 0.5, 1.0, 0.0, 1.0]"

definition indices :: "32 word list" where
  "indices =
     [0, 1, 2,
      0, 2, 3,
      0, 3, 4,
      0, 4, 1,
      1, 2, 3,
      1, 3, 4]"

text \<open>
  \<^verbatim>\<open>glBufferData\<close> stores into the buffer bound to the target and does nothing when none is
  bound. \<^verbatim>\<open>glUniformMatrix4fv\<close> is taken together with the \<^verbatim>\<open>glGetUniformLocation\<close> that
  precedes it in the source, so it is keyed by the uniform's name. \<^verbatim>\<open>glDrawElements\<close> records
  the model matrix in force and the indices it reads from the bound element buffer.
\<close>

definition glGenBuffers :: "world \<Rightarrow> nat \<times> world" where
  "glGenBuffers w = (Suc (buffers_created w), w\<lparr>buffers_created := Suc (buffers_created w)\<rparr>)"

definition glBindBuffer :: "buffer_target \<Rightarrow> nat \<Rightarrow> world \<Rightarrow> world" where
  "glBindBuffer target buffer w = w\<lparr>buffer_binding := (buffer_binding w)(target := buffer)\<rparr>"

definition glBufferData :: "buffer_target \<Rightarrow> buffer_data \<Rightarrow> world \<Rightarrow> world" where
  "glBufferData target data w =
     (if buffer_binding w target = 0 then w
      else w\<lparr>buffer_objects := (buffer_objects w)(buffer_binding w target \<mapsto> data)\<rparr>)"

definition glUniformMatrix4fv :: "string \<Rightarrow> mat4 \<Rightarrow> world \<Rightarrow> world" where
  "glUniformMatrix4fv name m w = w\<lparr>uniforms := (uniforms w)(name \<mapsto> m)\<rparr>"

definition glDrawElements :: "nat \<Rightarrow> world \<Rightarrow> world" where
  "glDrawElements count w =
     w\<lparr>draws := draws w @
        [\<lparr>draw_model = uniforms w ''model'',
          draw_elements =
            (case buffer_objects w (buffer_binding w GL_ELEMENT_ARRAY_BUFFER) of
               Some (UInts is) \<Rightarrow> if count \<le> length is then Some (take count is) else None
             | _ \<Rightarrow> None)\<rparr>]\<rparr>"

text \<open>
  The part of \<^verbatim>\<open>main\<close> that creates the two buffers and uploads the mesh. The vertex array
  object and the attribute pointers, which hold no buffer contents, are left out.
\<close>

definition uploadGeometry :: "world \<Rightarrow> (nat \<times> nat) \<times> world" where
  "uploadGeometry w =
     (case glGenBuffers w of
        (VBO, w1) \<Rightarrow>
          (case glGenBuffers w1 of
             (EBO, w2) \<Rightarrow>
               let w3 = glBindBuffer GL_ARRAY_BUFFER VBO w2;
                   w4 = glBufferData GL_ARRAY_BUFFER (Floats vertices) w3;
                   w5 = glBindBuffer GL_ELEMENT_ARRAY_BUFFER EBO w4;
                   w6 = glBufferData GL_ELEMENT_ARRAY_BUFFER (UInts indices) w5
               in ((VBO, EBO), w6)))"

text \<open>The two assignments to \<^verbatim>\<open>model\<close> in the body of the drawing loop.\<close>

definition model_matrix :: "int \<Rightarrow> mat4" where
  "model_matrix i =
     (let model = mat4_identity;
          model = translate model (Vec3 (real_of_int i * 2.0 - 2.0) 0.0 0.0)
      in model)"

definition draw_pyramid :: "int \<Rightarrow> world \<Rightarrow> world" where
  "draw_pyramid i w =
     (let model = model_matrix i;
          w1 = glUniformMatrix4fv ''model'' model w
      in glDrawElements 18 w1)"

text \<open>The loop \<^verbatim>\<open>for (int i = 0; i < 3; ++i)\<close>.\<close>

function draw_pyramids :: "int \<Rightarrow> world \<Rightarrow> world" where
  "draw_pyramids i w = (if i < 3 then draw_pyramids (i + 1) (draw_pyramid i w) else w)"
  by pat_completeness auto
termination
  by (relation "measure (\<lambda>(i, w). nat (3 - i))") auto

declare draw_pyramids.simps [simp del]

text \<open>
  One pass through the body of the render loop, up to the event poll: the input is processed
  and the three pyramids are drawn. Clearing the screen and the view and projection uniforms
  touch none of the state modelled here and are left out.
\<close>

type_synonym program_state = "GLFWwindow \<times> globals \<times> world"

definition render_frame :: "program_state \<Rightarrow> program_state option" where
  "render_frame s =
     (case s of (window, g, w) \<Rightarrow>
        (case processInput window g of
           None \<Rightarrow> None
         | Some (window', g') \<Rightarrow> Some (window', g', draw_pyramids 0 w)))"

text \<open>
  The render loop, run for as long as events are supplied: it stops when the close flag is
  set, and the state after the last supplied event is returned otherwise.
\<close>

fun render_loop :: "events list \<Rightarrow> program_state \<Rightarrow> program_state option" where
  "render_loop [] s = Some s"
| "render_loop (e # es) s =
     (case s of (window, g, w) \<Rightarrow>
        if glfwWindowShouldClose window then Some s
        else (case render_frame s of
                None \<Rightarrow> None
              | Some (window', g', w') \<Rightarrow> render_loop es (glfwPollEvents e window', g', w')))"

section \<open>Notions used in the statements\<close>

text \<open>A keyboard on which exactly the listed keys are down, and a window showing it.\<close>

definition keyboard :: "int list \<Rightarrow> int \<Rightarrow> int" where
  "keyboard ks k = (if k \<in> set ks then GLFW_PRESS else GLFW_RELEASE)"

definition window_with :: "int list \<Rightarrow> GLFWwindow" where
  "window_with ks = \<lparr>shouldClose = False, keyState = keyboard ks\<rparr>"

text \<open>The camera key number \<open>i\<close>, which selects view \<open>i - 1\<close>, and whether it is down.\<close>

definition camera_key :: "int \<Rightarrow> int" where
  "camera_key i = (if i = 1 then GLFW_KEY_1 else if i = 2 then GLFW_KEY_2 else GLFW_KEY_3)"

definition key_down :: "GLFWwindow \<Rightarrow> int \<Rightarrow> bool" where
  "key_down window i = (glfwGetKey window (camera_key i) = GLFW_PRESS)"

text \<open>
  \<open>view_selected g g' n\<close>: in the state \<open>g'\<close> after a call made in state \<open>g\<close>, the camera
  stands at preset \<open>n\<close> of the array as it was before the call and looks from there at the
  scene centre.
\<close>

definition view_selected :: "globals \<Rightarrow> globals \<Rightarrow> int \<Rightarrow> bool" where
  "view_selected g g' n =
     (currentCameraPosition g' = n \<and>
      (case subscript (cameraPositions g) n of
         None \<Rightarrow> False
       | Some p \<Rightarrow> camera_position g' = Some p \<and>
                  cameraFront g' = glm_normalize (vec3_minus (sceneCenter g) p)))"

text \<open>
  What holds of the camera variables in every state the program reaches: the presets and the
  scene centre are the initial ones, the index is a valid subscript, and the forward vector
  points from the selected preset to the scene centre.
\<close>

definition camera_inv :: "globals \<Rightarrow> bool" where
  "camera_inv g =
     (sceneCenter g = Vec3 0 0 0 \<and> cameraPositions g = initial_cameraPositions \<and>
      (currentCameraPosition g = 0 \<or> currentCameraPosition g = 1 \<or> currentCameraPosition g = 2) \<and>
      (case camera_position g of
         None \<Rightarrow> False
       | Some p \<Rightarrow> cameraFront g = glm_normalize (vec3_minus (sceneCenter g) p)))"

text \<open>The index list cut into triples, and the contents of the bound element buffer.\<close>

definition triangles :: "'a list \<Rightarrow> ('a \<times> 'a \<times> 'a) list" where
  "triangles xs =
     map (\<lambda>k. (xs ! (3 * k), xs ! (3 * k + 1), xs ! (3 * k + 2))) [0..<length xs div 3]"

definition element_buffer :: "world \<Rightarrow> buffer_data option" where
  "element_buffer w = buffer_objects w (buffer_binding w GL_ELEMENT_ARRAY_BUFFER)"

text \<open>
  A fresh environment with no files, and two drivers that accept every shader type: one rejects
  every source with a one-line log, the other rejects every source and leaves the log empty.
\<close>

definition empty_world :: world where
  "empty_world =
     \<lparr>files = Map.empty, cerr = '''', shader_objects = Map.empty, shaders_created = 0,
      buffer_objects = Map.empty, buffers_created = 0, buffer_binding = (\<lambda>t. 0),
      uniforms = Map.empty, draws = []\<rparr>"

definition strict_driver :: driver where
  "strict_driver = \<lparr>shader_types = (\<lambda>t. True), glsl = (\<lambda>t s. (False, ''syntax error''))\<rparr>"

definition silent_driver :: driver where
  "silent_driver = \<lparr>shader_types = (\<lambda>t. True), glsl = (\<lambda>t s. (False, ''''))\<rparr>"

section \<open>Facts about the camera\<close>

lemma sqrt_100: "sqrt 100 = 10"
  using real_sqrt_abs [of 10] by simp

lemma normalize_presets:
  "glm_normalize (vec3_minus (Vec3 0 0 0) (Vec3 0 0 10)) = Vec3 0 0 (- 1)"
  "glm_normalize (vec3_minus (Vec3 0 0 0) (Vec3 0 10 0)) = Vec3 0 (- 1) 0"
  "glm_normalize (vec3_minus (Vec3 0 0 0) (Vec3 10 0 0)) = Vec3 (- 1) 0 0"
  by (simp_all add: glm_normalize_def vec3_minus_def vec3_scale_def dot_def inversesqrt_def sqrt_100)

lemmas key_defs =
  glfwGetKey_def glfwSetWindowShouldClose_def GLFW_PRESS_def GLFW_RELEASE_def
  GLFW_KEY_ESCAPE_def GLFW_KEY_1_def GLFW_KEY_2_def GLFW_KEY_3_def

lemmas window_defs = window_with_def keyboard_def key_down_def camera_key_def key_defs

lemmas camera_defs = processInput_def assign_cameraFront_def camera_position_def

lemma glfwGetKey_close [simp]:
  "glfwGetKey (glfwSetWindowShouldClose window v) k = glfwGetKey window k"
  by (simp add: glfwGetKey_def glfwSetWindowShouldClose_def)

text \<open>
  The three branches run one after the other, so the last branch taken decides the index and
  the forward vector, and only the branch of key 2 writes the up vector.
\<close>

lemma processInput_closed_form:
  assumes "cameraPositions g = Array3 p0 p1 p2"
  shows "processInput window g =
    Some (if glfwGetKey window GLFW_KEY_ESCAPE = GLFW_PRESS
          then glfwSetWindowShouldClose window True else window,
          g\<lparr>cameraFront :=
               (if glfwGetKey window GLFW_KEY_3 = GLFW_PRESS
                then glm_normalize (vec3_minus (sceneCenter g) p2)
                else if glfwGetKey window GLFW_KEY_2 = GLFW_PRESS
                then glm_normalize (vec3_minus (sceneCenter g) p1)
                else if glfwGetKey window GLFW_KEY_1 = GLFW_PRESS
                then glm_normalize (vec3_minus (sceneCenter g) p0)
                else cameraFront g),
             cameraUp :=
               (if glfwGetKey window GLFW_KEY_2 = GLFW_PRESS then Vec3 0 0 (- 1) else cameraUp g),
             currentCameraPosition :=
               (if glfwGetKey window GLFW_KEY_3 = GLFW_PRESS then 2
                else if glfwGetKey window GLFW_KEY_2 = GLFW_PRESS then 1
                else if glfwGetKey window GLFW_KEY_1 = GLFW_PRESS then 0
                else currentCameraPosition g)\<rparr>)"
  using assms by (simp add: camera_defs Let_def)

lemma processInput_total: "\<exists>r. processInput window g = Some r"
  by (cases "cameraPositions g") (simp add: processInput_closed_form)

lemma processInput_inv:
  assumes "camera_inv g"
  shows "\<exists>w' g'. processInput window g = Some (w', g') \<and> camera_inv g'"
proof -
  from assms have a: "cameraPositions g = Array3 (Vec3 0 0 10) (Vec3 0 10 0) (Vec3 10 0 0)"
    by (simp add: camera_inv_def initial_cameraPositions_def)
  from assms show ?thesis
    by (auto simp add: processInput_closed_form [OF a] camera_inv_def camera_position_def a
        initial_cameraPositions_def split: option.splits if_splits)
qed

lemma processInputs_inv:
  "camera_inv (snd s) \<Longrightarrow> \<exists>w' g'. processInputs ks s = Some (w', g') \<and> camera_inv g'"
proof (induction ks arbitrary: s)
  case Nil
  then show ?case by (cases s) simp
next
  case (Cons k ks)
  from processInput_inv [OF Cons.prems, of "(fst s)\<lparr>keyState := k\<rparr>"]
  obtain w1 g1 where step: "processInput ((fst s)\<lparr>keyState := k\<rparr>) (snd s) = Some (w1, g1)"
    and inv: "camera_inv g1" by blast
  from Cons.IH [of "(w1, g1)"] inv step show ?case by simp
qed

lemma initial_inv: "camera_inv initial_globals"
  by (simp add: camera_inv_def initial_globals_def initial_cameraPositions_def camera_position_def
      normalize_presets)

lemma initial_presets:
  "cameraPositions initial_globals = Array3 (Vec3 0 0 10) (Vec3 0 10 0) (Vec3 10 0 0)"
  by (simp add: initial_globals_def initial_cameraPositions_def)

section \<open>Facts about shader compilation\<close>

lemmas shader_defs = compileShader_def glCreateShader_def glShaderSource_def glCompileShader_def
  glGetShaderiv_COMPILE_STATUS_def glGetShaderiv_INFO_LOG_LENGTH_def glGetShaderInfoLog_def
  glDeleteShader_def

text \<open>
  A rejected source whose log is not empty: the handle is zero, the object is gone and the
  diagnostic names the stage and carries the log.
\<close>

lemma compileShader_failure:
  assumes "shader_types drv type"
    and "glsl drv type (c_str source) = (False, msg)"
    and "c_str msg \<noteq> []"
  shows "\<exists>w'. compileShader drv type source w = Inr (0, w') \<and>
           shader_objects w' (Suc (shaders_created w)) = None \<and>
           cerr w' = cerr w @ ''Failed to compile '' @
             (if type = GL_VERTEX_SHADER then ''vertex'' else ''fragment'') @
             '' shader!'' @ [CHR 0x0A] @ c_str msg @ endl"
  using assms by (simp add: shader_defs Let_def)

lemma compileShader_success:
  assumes "shader_types drv type"
    and "glsl drv type (c_str source) = (True, msg)"
  shows "\<exists>w'. compileShader drv type source w = Inr (Suc (shaders_created w), w') \<and>
           map_option compile_status (shader_objects w' (Suc (shaders_created w))) = Some True \<and>
           cerr w' = cerr w"
  using assms by (simp add: shader_defs Let_def)

text \<open>A rejected source whose log is empty: the message buffer is read though never written.\<close>

lemma compileShader_no_log:
  assumes "shader_types drv type"
    and "glsl drv type (c_str source) = (False, msg)"
    and "c_str msg = []"
  shows "compileShader drv type source w = Inl Unwritten_message"
  using assms by (simp add: shader_defs Let_def)

section \<open>Facts about the buffers and the drawing loop\<close>

lemmas gl_defs = glGenBuffers_def glBindBuffer_def glBufferData_def glUniformMatrix4fv_def
  glDrawElements_def

lemma draw_pyramids_unfold:
  "draw_pyramids 0 w = draw_pyramid 2 (draw_pyramid 1 (draw_pyramid 0 w))"
  by (simp add: draw_pyramids.simps [of 0] draw_pyramids.simps [of 1] draw_pyramids.simps [of 2]
      draw_pyramids.simps [of 3])

lemma draw_pyramid_buffers:
  "buffer_objects (draw_pyramid i w) = buffer_objects w"
  "buffer_binding (draw_pyramid i w) = buffer_binding w"
  by (simp_all add: draw_pyramid_def gl_defs Let_def)

lemma draw_pyramids_element_buffer:
  "element_buffer (draw_pyramids 0 w) = element_buffer w"
  by (simp add: draw_pyramids_unfold element_buffer_def draw_pyramid_buffers)

lemma uploadGeometry_element_buffer:
  "element_buffer (snd (uploadGeometry w)) = Some (UInts indices)"
  by (simp add: uploadGeometry_def gl_defs element_buffer_def Let_def)

lemma render_frame_element_buffer:
  "\<exists>window' g' w'. render_frame (window, g, w) = Some (window', g', w') \<and>
     element_buffer w' = element_buffer w"
  using processInput_total [of window g]
  by (auto simp add: render_frame_def draw_pyramids_element_buffer)

lemma render_loop_element_buffer:
  "\<exists>window' g' w'. render_loop es (window, g, w) = Some (window', g', w') \<and>
     element_buffer w' = element_buffer w"
proof (induction es arbitrary: window g w)
  case Nil
  show ?case by simp
next
  case (Cons e es)
  show ?case
  proof (cases "glfwWindowShouldClose window")
    case True
    then show ?thesis by simp
  next
    case False
    from render_frame_element_buffer [of window g w]
    obtain w1 g1 v1 where f: "render_frame (window, g, w) = Some (w1, g1, v1)"
      and b: "element_buffer v1 = element_buffer w" by blast
    from Cons.IH [of "glfwPollEvents e w1" g1 v1] b f False show ?thesis by simp
  qed
qed

lemma model_matrix_eq:
  "model_matrix i =
     Mat4 (Vec4 1 0 0 0) (Vec4 0 1 0 0) (Vec4 0 0 1 0) (Vec4 (real_of_int i * 2 - 2) 0 0 1)"
  by (simp add: model_matrix_def translate_def mat4_identity_def vec4_plus_def vec4_scale_def)

lemma draw_pyramids_draws:
  "draws (draw_pyramids 0 w) = draws w @
     map (\<lambda>i. \<lparr>draw_model = Some (model_matrix i),
               draw_elements =
                 (case element_buffer w of
                    Some (UInts is) \<Rightarrow> if 18 \<le> length is then Some (take 18 is) else None
                  | _ \<Rightarrow> None)\<rparr>) [0, 1, 2]"
  by (simp add: draw_pyramids_unfold draw_pyramid_def gl_defs Let_def element_buffer_def)

section \<open>The camera selection\<close>

text \<open>
  Claim C1, as amended. For every camera key \<open>i\<close> in \<open>{1, 2, 3}\<close>, a \<^verbatim>\<open>processInput\<close> call in
  which key \<open>i\<close> is down and no camera key with a higher number is down returns normally and
  leaves the camera at \<^verbatim>\<open>cameraPositions[i - 1]\<close> with the forward vector
  \<^verbatim>\<open>normalize(sceneCenter - cameraPositions[i - 1])\<close>. In particular, with the initial presets
  and scene centre, key 2 yields the position \<open>(0, 10, 0)\<close> and the forward vector
  \<open>(0, -1, 0)\<close>.
\<close>

theorem processInput_selects_view:
  assumes "i = 1 \<or> i = 2 \<or> i = 3"
    and "key_down window i"
    and "\<forall>j\<in>{1, 2, 3}. i < j \<longrightarrow> \<not> key_down window j"
  shows "\<exists>w' g'. processInput window g = Some (w', g') \<and> view_selected g g' (i - 1) \<and>
           (i = 2 \<and> sceneCenter g = Vec3 0 0 0 \<and> cameraPositions g = initial_cameraPositions
              \<longrightarrow> camera_position g' = Some (Vec3 0 10 0) \<and> cameraFront g' = Vec3 0 (- 1) 0)"
proof (cases "cameraPositions g")
  case (Array3 p0 p1 p2)
  from assms show ?thesis
    by (auto simp add: processInput_closed_form [OF Array3] view_selected_def camera_position_def
        Array3 key_down_def camera_key_def initial_cameraPositions_def normalize_presets)
qed

theorem processInput_selects_view_witness:
  "key_down (window_with [GLFW_KEY_2]) 2 \<and>
   (\<exists>w' g'. processInput (window_with [GLFW_KEY_2]) initial_globals = Some (w', g') \<and>
      view_selected initial_globals g' 1 \<and>
      camera_position g' = Some (Vec3 0 10 0) \<and> cameraFront g' = Vec3 0 (- 1) 0)"
proof -
  have k: "key_down (window_with [GLFW_KEY_2]) 2"
    by (simp add: window_defs)
  have h: "\<forall>j\<in>{1, 2, 3}. (2::int) < j \<longrightarrow> \<not> key_down (window_with [GLFW_KEY_2]) j"
    by (simp add: window_defs)
  from processInput_selects_view [of 2 "window_with [GLFW_KEY_2]" initial_globals, OF _ k h] k
  show ?thesis by (simp add: initial_globals_def)
qed

text \<open>
  Claim C1 as it is written fails when a higher key is down in the same call: with keys 1
  and 3 both down, key 1 is down, yet the camera ends at \<^verbatim>\<open>cameraPositions[2]\<close>, which is
  \<open>(10, 0, 0)\<close> and not \<^verbatim>\<open>cameraPositions[0]\<close>, and the forward vector is \<open>(-1, 0, 0)\<close> and
  not \<open>(0, 0, -1)\<close>.
\<close>

theorem processInput_key1_with_key3_counterexample:
  "key_down (window_with [GLFW_KEY_1, GLFW_KEY_3]) 1 \<and>
   subscript (cameraPositions initial_globals) (1 - 1) = Some (Vec3 0 0 10) \<and>
   map_option (camera_position \<circ> snd)
     (processInput (window_with [GLFW_KEY_1, GLFW_KEY_3]) initial_globals) =
     Some (Some (Vec3 10 0 0)) \<and>
   glm_normalize (vec3_minus (sceneCenter initial_globals) (Vec3 0 0 10)) = Vec3 0 0 (- 1) \<and>
   map_option (cameraFront \<circ> snd)
     (processInput (window_with [GLFW_KEY_1, GLFW_KEY_3]) initial_globals) =
     Some (Vec3 (- 1) 0 0)"
  unfolding processInput_closed_form [OF initial_presets]
  by (simp add: initial_globals_def initial_cameraPositions_def window_defs camera_position_def
      normalize_presets)

text \<open>
  Claim C2. A \<^verbatim>\<open>processInput\<close> call in which key 2 is down sets the up vector to
  \<open>(0, 0, -1)\<close>. A call in which key 2 is not down, so also one in which only key 1 or only
  key 3 is down, leaves the up vector as it was before the call, whatever it was.
\<close>

theorem processInput_cameraUp:
  "\<exists>w' g'. processInput window g = Some (w', g') \<and>
     (key_down window 2 \<longrightarrow> cameraUp g' = Vec3 0 0 (- 1)) \<and>
     (\<not> key_down window 2 \<longrightarrow> cameraUp g' = cameraUp g)"
  by (cases "cameraPositions g")
    (simp add: processInput_closed_form key_down_def camera_key_def)

text \<open>
  The witness selects the top view and then the front view, which keeps the up vector of the
  top view; selecting the side view in the initial state keeps the initial up vector.
\<close>

theorem processInput_cameraUp_witness:
  "key_down (window_with [GLFW_KEY_2]) 2 \<and>
   \<not> key_down (window_with [GLFW_KEY_1]) 2 \<and> \<not> key_down (window_with [GLFW_KEY_3]) 2 \<and>
   (\<exists>w1 g1 w2 g2 w3 g3.
      processInput (window_with [GLFW_KEY_2]) initial_globals = Some (w1, g1) \<and>
      cameraUp g1 = Vec3 0 0 (- 1) \<and>
      processInput (window_with [GLFW_KEY_1]) g1 = Some (w2, g2) \<and>
      cameraUp g2 = Vec3 0 0 (- 1) \<and>
      processInput (window_with [GLFW_KEY_3]) initial_globals = Some (w3, g3) \<and>
      cameraUp g3 = Vec3 0 1 0)"
proof -
  have k2: "key_down (window_with [GLFW_KEY_2]) 2"
    and k1: "\<not> key_down (window_with [GLFW_KEY_1]) 2"
    and k3: "\<not> key_down (window_with [GLFW_KEY_3]) 2"
    by (simp_all add: window_defs)
  from processInput_cameraUp [of "window_with [GLFW_KEY_2]" initial_globals] k2
  obtain w1 g1 where s1: "processInput (window_with [GLFW_KEY_2]) initial_globals = Some (w1, g1)"
    and u1: "cameraUp g1 = Vec3 0 0 (- 1)" by blast
  from processInput_cameraUp [of "window_with [GLFW_KEY_1]" g1] k1 u1
  obtain w2 g2 where s2: "processInput (window_with [GLFW_KEY_1]) g1 = Some (w2, g2)"
    and u2: "cameraUp g2 = Vec3 0 0 (- 1)" by auto
  from processInput_cameraUp [of "window_with [GLFW_KEY_3]" initial_globals] k3
  obtain w3 g3 where s3: "processInput (window_with [GLFW_KEY_3]) initial_globals = Some (w3, g3)"
    and u3: "cameraUp g3 = Vec3 0 1 0" by (auto simp add: initial_globals_def)
  from k1 k2 k3 s1 u1 s2 u2 s3 u3 show ?thesis by blast
qed

text \<open>
  Claim C3. In the initial state and in every state that a sequence of \<^verbatim>\<open>processInput\<close>
  calls produces from it, whatever the keys, every call returns normally, the scene centre is
  the origin, and the forward vector is
  \<^verbatim>\<open>normalize(sceneCenter - cameraPositions[currentCameraPosition])\<close>. Vector components are
  real numbers here.
\<close>

theorem forward_invariant:
  "\<exists>w' g' p. processInputs ks (window, initial_globals) = Some (w', g') \<and>
     sceneCenter g' = Vec3 0 0 0 \<and> camera_position g' = Some p \<and>
     cameraFront g' = glm_normalize (vec3_minus (sceneCenter g') p)"
proof -
  from processInputs_inv [of "(window, initial_globals)" ks] initial_inv
  obtain w' g' where run: "processInputs ks (window, initial_globals) = Some (w', g')"
    and inv: "camera_inv g'" by auto
  from inv obtain p where "camera_position g' = Some p"
    and "cameraFront g' = glm_normalize (vec3_minus (sceneCenter g') p)"
    and "sceneCenter g' = Vec3 0 0 0"
    by (auto simp add: camera_inv_def split: option.splits)
  with run show ?thesis by blast
qed

text \<open>
  Claim C8. Every camera transition is idempotent: for every camera state and every keyboard
  state, so in particular with camera key \<open>i\<close> down for each \<open>i\<close> in \<open>{1, 2, 3}\<close>, a second
  \<^verbatim>\<open>processInput\<close> call with the same keys returns the state the first call returned.
\<close>

theorem processInput_idempotent:
  "\<exists>w' g'. processInput window g = Some (w', g') \<and> processInput w' g' = Some (w', g')"
proof (cases "cameraPositions g")
  case (Array3 p0 p1 p2)
  show ?thesis
    by (simp add: processInput_closed_form [where ?p0.0 = p0 and ?p1.0 = p1 and ?p2.0 = p2] Array3
        glfwSetWindowShouldClose_def glfwGetKey_def)
qed

text \<open>
  Claim C9. When several camera keys are down in one \<^verbatim>\<open>processInput\<close> call, the branches
  apply in the order 1, 2, 3: the highest key that is down decides the position index and the
  forward vector, and the up vector is \<open>(0, 0, -1)\<close> whenever key 2 is among the keys down.
\<close>

theorem processInput_key_order:
  "\<exists>w' g'. processInput window g = Some (w', g') \<and>
     (key_down window 3 \<longrightarrow> view_selected g g' 2) \<and>
     (key_down window 2 \<and> \<not> key_down window 3 \<longrightarrow> view_selected g g' 1) \<and>
     (key_down window 1 \<and> \<not> key_down window 2 \<and> \<not> key_down window 3 \<longrightarrow> view_selected g g' 0) \<and>
     (key_down window 2 \<longrightarrow> cameraUp g' = Vec3 0 0 (- 1))"
proof (cases "cameraPositions g")
  case (Array3 p0 p1 p2)
  show ?thesis
    by (simp add: processInput_closed_form [OF Array3] view_selected_def camera_position_def
        Array3 key_down_def camera_key_def)
qed

text \<open>Keys 2 and 3 together give the side position with the up vector of the top view.\<close>

theorem processInput_key_order_witness:
  "key_down (window_with [GLFW_KEY_2, GLFW_KEY_3]) 2 \<and>
   key_down (window_with [GLFW_KEY_2, GLFW_KEY_3]) 3 \<and>
   (\<exists>w' g'. processInput (window_with [GLFW_KEY_2, GLFW_KEY_3]) initial_globals = Some (w', g') \<and>
      currentCameraPosition g' = 2 \<and> camera_position g' = Some (Vec3 10 0 0) \<and>
      cameraFront g' = Vec3 (- 1) 0 0 \<and> cameraUp g' = Vec3 0 0 (- 1))"
proof -
  have k2: "key_down (window_with [GLFW_KEY_2, GLFW_KEY_3]) 2"
    and k3: "key_down (window_with [GLFW_KEY_2, GLFW_KEY_3]) 3"
    by (simp_all add: window_defs)
  from processInput_key_order [of "window_with [GLFW_KEY_2, GLFW_KEY_3]" initial_globals] k2 k3
  obtain w' g' where
    s: "processInput (window_with [GLFW_KEY_2, GLFW_KEY_3]) initial_globals = Some (w', g')"
    and v: "view_selected initial_globals g' 2" and u: "cameraUp g' = Vec3 0 0 (- 1)"
    by blast
  from v have "currentCameraPosition g' = 2 \<and> camera_position g' = Some (Vec3 10 0 0) \<and>
      cameraFront g' = Vec3 (- 1) 0 0"
    by (simp add: view_selected_def initial_globals_def initial_cameraPositions_def
        normalize_presets)
  with k2 k3 s u show ?thesis by blast
qed

text \<open>
  Claim C10. After every sequence of \<^verbatim>\<open>processInput\<close> calls from the initial state, the
  index \<^verbatim>\<open>currentCameraPosition\<close> is 0, 1 or 2, and the preset array and the scene centre have
  their initial values.
\<close>

theorem camera_index_and_presets_invariant:
  "\<exists>w' g'. processInputs ks (window, initial_globals) = Some (w', g') \<and>
     currentCameraPosition g' \<in> {0, 1, 2} \<and>
     cameraPositions g' = cameraPositions initial_globals \<and>
     sceneCenter g' = sceneCenter initial_globals"
proof -
  from processInputs_inv [of "(window, initial_globals)" ks] initial_inv
  obtain w' g' where run: "processInputs ks (window, initial_globals) = Some (w', g')"
    and inv: "camera_inv g'" by auto
  from inv have "currentCameraPosition g' \<in> {0, 1, 2}"
    and "cameraPositions g' = cameraPositions initial_globals"
    and "sceneCenter g' = sceneCenter initial_globals"
    by (auto simp add: camera_inv_def initial_globals_def)
  with run show ?thesis by blast
qed

section \<open>Reading a file\<close>

text \<open>
  Claim C4. For a path that cannot be opened, \<^verbatim>\<open>readFile\<close> returns the empty string and
  appends a diagnostic naming the path to the error stream; for a file that can be opened it
  returns the whole contents and writes nothing. It returns a value in both cases: the
  function has no failing branch.
\<close>

theorem readFile_contract:
  "(files w filePath = None \<longrightarrow>
      fst (readFile filePath w) = '''' \<and>
      cerr (snd (readFile filePath w)) =
        cerr w @ ''Could not read file '' @ filePath @ ''. File does not exist.'' @ endl \<and>
      files (snd (readFile filePath w)) = files w) \<and>
   (\<forall>content. files w filePath = Some content \<longrightarrow> readFile filePath w = (content, w))"
  by (simp add: readFile_def)

theorem readFile_contract_witness:
  "files (empty_world\<lparr>files := [''vertex_shader.glsl'' \<mapsto> ''void main() {}'']\<rparr>)
     ''fragment_shader.glsl'' = None \<and>
   fst (readFile ''fragment_shader.glsl''
     (empty_world\<lparr>files := [''vertex_shader.glsl'' \<mapsto> ''void main() {}'']\<rparr>)) = '''' \<and>
   cerr (snd (readFile ''fragment_shader.glsl''
     (empty_world\<lparr>files := [''vertex_shader.glsl'' \<mapsto> ''void main() {}'']\<rparr>))) =
     ''Could not read file fragment_shader.glsl. File does not exist.'' @ endl \<and>
   fst (readFile ''vertex_shader.glsl''
     (empty_world\<lparr>files := [''vertex_shader.glsl'' \<mapsto> ''void main() {}'']\<rparr>)) =
     ''void main() {}''"
proof -
  let ?w = "empty_world\<lparr>files := [''vertex_shader.glsl'' \<mapsto> ''void main() {}'']\<rparr>"
  have a: "files ?w ''fragment_shader.glsl'' = None"
    and b: "files ?w ''vertex_shader.glsl'' = Some ''void main() {}''"
    by simp_all
  from readFile_contract [of ?w "''fragment_shader.glsl''"] a
  have "fst (readFile ''fragment_shader.glsl'' ?w) = '''' \<and>
      cerr (snd (readFile ''fragment_shader.glsl'' ?w)) =
        ''Could not read file fragment_shader.glsl. File does not exist.'' @ endl"
    by (simp add: empty_world_def)
  moreover from readFile_contract [of ?w "''vertex_shader.glsl''"] b
  have "fst (readFile ''vertex_shader.glsl'' ?w) = ''void main() {}''"
    by simp
  ultimately show ?thesis using a by blast
qed

section \<open>Compiling a shader\<close>

text \<open>
  A malformed fragment shader on a driver that rejects it with the log \<open>syntax error\<close>: the
  handle is zero, the object is deleted, and the diagnostic names the stage and ends with the
  log, as \<open>compileShader_failure\<close> states for every rejected source whose log is not empty.
\<close>

lemma compileShader_strict_driver:
  "\<exists>w'. compileShader strict_driver GL_FRAGMENT_SHADER ''void main( {'' empty_world = Inr (0, w') \<and>
     shader_objects w' 1 = None \<and>
     cerr w' = ''Failed to compile fragment shader!'' @ [CHR 0x0A] @ ''syntax error'' @ endl"
  using compileShader_failure [of strict_driver GL_FRAGMENT_SHADER "''void main( {''"
      "''syntax error''" empty_world]
  by (simp add: strict_driver_def c_str_def empty_world_def GL_FRAGMENT_SHADER_def
      GL_VERTEX_SHADER_def)

text \<open>
  Claim C5 fails where the driver rejects a source and leaves the information log empty. The
  log length is then 0, \<^verbatim>\<open>alloca\<close> yields a buffer of no bytes, \<^verbatim>\<open>glGetShaderInfoLog\<close> writes
  nothing into it, and the output statement reads \<^verbatim>\<open>message\<close> all the same: the call has no
  defined result, where the claim promises the zero handle, the deletion and the diagnostic.
\<close>

theorem compileShader_empty_log_fault:
  "glsl silent_driver GL_VERTEX_SHADER (c_str ''void main( {'') = (False, '''') \<and>
   compileShader silent_driver GL_VERTEX_SHADER ''void main( {'' empty_world =
     Inl Unwritten_message"
  by (simp add: shader_defs Let_def silent_driver_def c_str_def empty_world_def)

section \<open>The index buffer and the model matrices\<close>

text \<open>
  Claim C6. The index array holds exactly 18 unsigned integers, each at most 4 (and at least
  0, being unsigned). The vertex array holds 5 vertices of 6 floats each, and every index is
  the number of one of them, so the indices, taken three at a time, define 6 triangles over
  the 5 vertices. After the upload, the render loop returns normally for every course of
  events and leaves the element buffer holding these indices.
\<close>

theorem index_buffer_contents:
  "length indices = 18 \<and> (\<forall>i\<in>set indices. i \<le> 4) \<and> length (triangles indices) = 6 \<and>
   length vertices div 6 = 5 \<and>
   (\<forall>i\<in>set indices. unat i < length vertices div 6) \<and>
   triangles indices = [(0, 1, 2), (0, 2, 3), (0, 3, 4), (0, 4, 1), (1, 2, 3), (1, 3, 4)] \<and>
   (\<exists>window' g' w'.
      render_loop es (window, g, snd (uploadGeometry w)) = Some (window', g', w') \<and>
      element_buffer w' = Some (UInts indices))"
proof -
  have "length indices = 18" by (simp add: indices_def)
  moreover have "\<forall>i\<in>set indices. i \<le> 4" by (simp add: indices_def)
  moreover have "length (triangles indices) = 6" by (simp add: triangles_def indices_def)
  moreover have "length vertices div 6 = 5" by (simp add: vertices_def)
  moreover have "\<forall>i\<in>set indices. unat i < length vertices div 6"
    by (simp add: indices_def vertices_def)
  moreover have "triangles indices =
      [(0, 1, 2), (0, 2, 3), (0, 3, 4), (0, 4, 1), (1, 2, 3), (1, 3, 4)]"
    by (simp add: triangles_def indices_def upt_rec)
  moreover from render_loop_element_buffer [of es window g "snd (uploadGeometry w)"]
  have "\<exists>window' g' w'.
      render_loop es (window, g, snd (uploadGeometry w)) = Some (window', g', w') \<and>
      element_buffer w' = Some (UInts indices)"
    by (simp add: uploadGeometry_element_buffer)
  ultimately show ?thesis by blast
qed

text \<open>
  The witness runs two frames from the initial state, the second with key 2 down, and looks
  at the index 4.
\<close>

theorem index_buffer_contents_witness:
  "(4::32 word) \<in> set indices \<and> (4::32 word) \<le> 4 \<and>
   unat (4::32 word) < length vertices div 6 \<and>
   (\<exists>window' g' w'.
      render_loop [\<lparr>key_states = keyboard [], close_requested = False\<rparr>,
                   \<lparr>key_states = keyboard [GLFW_KEY_2], close_requested = False\<rparr>]
        (window_with [], initial_globals, snd (uploadGeometry empty_world)) =
        Some (window', g', w') \<and>
      element_buffer w' = Some (UInts indices))"
proof -
  have "(4::32 word) \<in> set indices" by (simp add: indices_def)
  with index_buffer_contents
    [of "[\<lparr>key_states = keyboard [], close_requested = False\<rparr>,
          \<lparr>key_states = keyboard [GLFW_KEY_2], close_requested = False\<rparr>]"
        "window_with []" initial_globals empty_world]
  show ?thesis by blast
qed

text \<open>
  Claim C7. For each instance \<open>i\<close> in \<open>{0, 1, 2}\<close> the model matrix is the identity translated
  by \<open>(i * 2 - 2, 0, 0)\<close> and carries the origin of the mesh to that point. Every frame,
  whatever the state, returns normally and draws with these three matrices in this order, so
  the instances stand at \<open>(-2, 0, 0)\<close>, \<open>(0, 0, 0)\<close> and \<open>(2, 0, 0)\<close>. Matrix entries are real
  numbers here.
\<close>

theorem model_matrices:
  "(\<forall>i\<in>{0, 1, 2}.
      model_matrix i = translate mat4_identity (Vec3 (real_of_int i * 2 - 2) 0 0) \<and>
      mat4_times_vec4 (model_matrix i) (Vec4 0 0 0 1) = Vec4 (real_of_int i * 2 - 2) 0 0 1) \<and>
   (\<exists>window' g' w'. render_frame (window, g, w) = Some (window', g', w') \<and>
      map draw_model (drop (length (draws w)) (draws w')) =
        [Some (model_matrix 0), Some (model_matrix 1), Some (model_matrix 2)]) \<and>
   map (\<lambda>m. mat4_times_vec4 m (Vec4 0 0 0 1)) [model_matrix 0, model_matrix 1, model_matrix 2] =
     [Vec4 (- 2) 0 0 1, Vec4 0 0 0 1, Vec4 2 0 0 1]"
proof -
  have a: "\<forall>i\<in>{0, 1, 2}.
      model_matrix i = translate mat4_identity (Vec3 (real_of_int i * 2 - 2) 0 0) \<and>
      mat4_times_vec4 (model_matrix i) (Vec4 0 0 0 1) = Vec4 (real_of_int i * 2 - 2) 0 0 1"
    by (simp add: model_matrix_def translate_def mat4_identity_def vec4_plus_def vec4_scale_def
        mat4_times_vec4_def)
  have b: "map (\<lambda>m. mat4_times_vec4 m (Vec4 0 0 0 1))
        [model_matrix 0, model_matrix 1, model_matrix 2] =
        [Vec4 (- 2) 0 0 1, Vec4 0 0 0 1, Vec4 2 0 0 1]"
    by (simp add: model_matrix_eq mat4_times_vec4_def vec4_plus_def vec4_scale_def)
  have c: "map draw_model (drop (length (draws w)) (draws (draw_pyramids 0 w))) =
        [Some (model_matrix 0), Some (model_matrix 1), Some (model_matrix 2)]"
    by (simp add: draw_pyramids_draws)
  from processInput_total [of window g] c
  have "\<exists>window' g' w'. render_frame (window, g, w) = Some (window', g', w') \<and>
      map draw_model (drop (length (draws w)) (draws w')) =
        [Some (model_matrix 0), Some (model_matrix 1), Some (model_matrix 2)]"
    by (auto simp add: render_frame_def)
  with a b show ?thesis by blast
qed

theorem model_matrices_witness:
  "(2::int) \<in> {0, 1, 2} \<and>
   model_matrix 2 = translate mat4_identity (Vec3 2 0 0) \<and>
   mat4_times_vec4 (model_matrix 2) (Vec4 0 0 0 1) = Vec4 2 0 0 1"
proof -
  have m: "(2::int) \<in> {0, 1, 2}" by simp
  have r: "real_of_int 2 * 2 - 2 = (2::real)" by simp
  from model_matrices [of "window_with []" initial_globals empty_world]
  have "\<forall>i\<in>{0, 1, 2}.
      model_matrix i = translate mat4_identity (Vec3 (real_of_int i * 2 - 2) 0 0) \<and>
      mat4_times_vec4 (model_matrix i) (Vec4 0 0 0 1) = Vec4 (real_of_int i * 2 - 2) 0 0 1"
    by (rule conjunct1)
  from bspec [OF this m]
  have "model_matrix 2 = translate mat4_identity (Vec3 2 0 0) \<and>
      mat4_times_vec4 (model_matrix 2) (Vec4 0 0 0 1) = Vec4 2 0 0 1"
    unfolding r .
  with m show ?thesis by blast
qed

end
